theory Spec2Isabelle
  imports Main "HOL-Library.Sublist"
begin

section \<open>Text\<close>

text \<open>
  The script works on Python strings, sequences of Unicode code points. A string is
  modelled as the list of its code points, each a natural number; \<open>u\<close> reads an ASCII
  literal as such a list. \<open>str.strip\<close> and the decimal rendering of an f-string are
  written out in full. \<open>str.lower\<close> follows CPython's \<open>do_lower\<close>: a capital sigma
  becomes the final or the medial small sigma according to the letters around it, every
  other code point is replaced by its full lower-case mapping. The mapping and the two
  character properties the sigma rule consults are tables of the interpreter's Unicode
  database; they are taken as given (\<open>unicode_data\<close>), so that what is proved holds for
  whatever these tables contain.
\<close>

type_synonym ustr = "nat list"

definition u :: "string \<Rightarrow> ustr" where
  "u s = map of_char s"

definition isspace :: "nat \<Rightarrow> bool" where
  \<comment> \<open>The code points for which \<open>str.isspace\<close> holds, those \<open>strip\<close> removes.\<close>
  "isspace n =
     ((9 \<le> n \<and> n \<le> 13) \<or> (28 \<le> n \<and> n \<le> 32) \<or> n = 133 \<or> n = 160 \<or> n = 5760
      \<or> (8192 \<le> n \<and> n \<le> 8202) \<or> n = 8232 \<or> n = 8233 \<or> n = 8239 \<or> n = 8287
      \<or> n = 12288)"

definition strip :: "ustr \<Rightarrow> ustr" where
  "strip s = rev (dropWhile isspace (rev (dropWhile isspace s)))"

record unicode_data =
  to_lower_full :: "nat \<Rightarrow> nat list"
  cased :: "nat \<Rightarrow> bool"
  case_ignorable :: "nat \<Rightarrow> bool"

definition capital_sigma :: nat where
  "capital_sigma = 0x3A3"

definition final_sigma :: "unicode_data \<Rightarrow> ustr \<Rightarrow> ustr \<Rightarrow> bool" where
  \<comment> \<open>\<open>handle_capital_sigma\<close>: \<open>before\<close> holds the code points to the left, nearest
      first, \<open>after\<close> those to the right. A cased letter stands before the sigma and none
      after it, code points that case mapping ignores being skipped on both sides.\<close>
  "final_sigma ud before after =
     ((case dropWhile (case_ignorable ud) before of [] \<Rightarrow> False | c # _ \<Rightarrow> cased ud c)
      \<and> (case dropWhile (case_ignorable ud) after of [] \<Rightarrow> True | c # _ \<Rightarrow> \<not> cased ud c))"

fun lower_from :: "unicode_data \<Rightarrow> ustr \<Rightarrow> ustr \<Rightarrow> ustr" where
  "lower_from ud seen [] = []"
| "lower_from ud seen (c # rest) =
     (if c = capital_sigma then [if final_sigma ud seen rest then 0x3C2 else 0x3C3]
      else to_lower_full ud c)
     @ lower_from ud (c # seen) rest"

definition lower :: "unicode_data \<Rightarrow> ustr \<Rightarrow> ustr" where
  "lower ud s = lower_from ud [] s"

function str_nat :: "nat \<Rightarrow> ustr" where
  "str_nat n =
     (if n < 10 then [48 + n]
      else str_nat (n div 10) @ [48 + n mod 10])"
  by pat_completeness auto
termination
  by (relation "measure id") auto

declare str_nat.simps [simp del]

definition backslash :: nat where
  "backslash = 0x5C"

definition apostrophe :: nat where
  "apostrophe = 0x27"

definition newline :: nat where
  "newline = 0x0A"

section \<open>The pattern language of \<open>re\<close>, as far as the script can reach it\<close>

text \<open>
  Line 105 builds the pattern with \<open>re.escape\<close> and line 108 hands it to
  \<open>Series.str.contains\<close>, which compiles it with no flags and asks \<open>search\<close> of every
  value. \<open>re_escape\<close> is CPython's translation table. The pattern reader covers
  literals, backslash escapes of non-alphanumeric characters, the dot and the two anchors;
  a pattern using groups, classes, alternation or repetition lies beyond this fragment and is
  reported as such, never silently read as text.
\<close>

datatype item = Lit nat | Any_char | Bol | Eol

datatype re_fault = Bad_escape | Beyond_fragment

definition ascii_alnum :: "nat \<Rightarrow> bool" where
  "ascii_alnum c =
     ((48 \<le> c \<and> c \<le> 57) \<or> (65 \<le> c \<and> c \<le> 90) \<or> (97 \<le> c \<and> c \<le> 122))"

definition escaped_chars :: ustr where
  "escaped_chars =
     (u ''()[]{}?*+-|^$'') @ [backslash] @ (u ''.&~# '') @ [9, 10, 13, 11, 12]"

definition re_escape :: "ustr \<Rightarrow> ustr" where
  "re_escape p = concat (map (\<lambda>c. if c \<in> set escaped_chars then [backslash, c] else [c]) p)"

definition cons_item :: "item \<Rightarrow> re_fault + item list \<Rightarrow> re_fault + item list" where
  "cons_item i r = (case r of Inl f \<Rightarrow> Inl f | Inr is \<Rightarrow> Inr (i # is))"

fun re_parse :: "ustr \<Rightarrow> re_fault + item list" where
  "re_parse [] = Inr []"
| "re_parse (c # cs) =
     (if c = backslash then
        (case cs of
           [] \<Rightarrow> Inl Bad_escape
         | d # ds \<Rightarrow>
             if ascii_alnum d then Inl Beyond_fragment else cons_item (Lit d) (re_parse ds))
      else if c = (of_char CHR ''.'') then cons_item Any_char (re_parse cs)
      else if c = (of_char CHR ''^'') then cons_item Bol (re_parse cs)
      else if c = (of_char CHR ''$'') then cons_item Eol (re_parse cs)
      else if c \<in> set (u ''[{()*+?|'') then Inl Beyond_fragment
      else cons_item (Lit c) (re_parse cs))"

text \<open>
  Matching at a position: the flag says whether the position is the start of the subject.
  The dot refuses a line feed, \<open>$\<close> holds at the end and before a final line feed.
\<close>

fun match_here :: "bool \<Rightarrow> item list \<Rightarrow> ustr \<Rightarrow> bool" where
  "match_here b [] s = True"
| "match_here b (Lit c # r) s =
     (case s of [] \<Rightarrow> False | d # t \<Rightarrow> d = c \<and> match_here False r t)"
| "match_here b (Any_char # r) s =
     (case s of [] \<Rightarrow> False | d # t \<Rightarrow> d \<noteq> newline \<and> match_here False r t)"
| "match_here b (Bol # r) s = (b \<and> match_here b r s)"
| "match_here b (Eol # r) s = ((s = [] \<or> s = [newline]) \<and> match_here b r s)"

fun search_from :: "bool \<Rightarrow> item list \<Rightarrow> ustr \<Rightarrow> bool" where
  "search_from b r [] = match_here b r []"
| "search_from b r (c # s) = (match_here b r (c # s) \<or> search_from False r s)"

definition re_search :: "ustr \<Rightarrow> ustr \<Rightarrow> re_fault + bool" where
  "re_search pat s =
     (case re_parse pat of Inl f \<Rightarrow> Inl f | Inr r \<Rightarrow> Inr (search_from True r s))"

section \<open>The page and the table read from it\<close>

text \<open>
  \<open>soup.find("table", class_="wikitable")\<close> yields a table element or \<open>None\<close>. The
  element is modelled by what \<open>find_all\<close> returns on it: its rows in document order, each
  row the header and data cells below it with their text.
\<close>

datatype cell_tag = Th | Td

datatype cell = Cell (tag: cell_tag) (cell_text: ustr)

type_synonym html_table = "cell list list"

datatype exn =
  Engine_error | Index_error | Value_error | Key_error | Attribute_error | EOF_error
  | Re_error re_fault

definition find_all :: "cell_tag list \<Rightarrow> cell list \<Rightarrow> cell list" where
  "find_all tags row = filter (\<lambda>c. tag c \<in> set tags) row"

definition stripped_texts :: "cell list \<Rightarrow> ustr list" where
  "stripped_texts cells = map (\<lambda>c. strip (cell_text c)) cells"

definition read_headers :: "html_table \<Rightarrow> exn + ustr list" where
  \<comment> \<open>Line 50: \<open>find_all("tr")[0]\<close> raises on a table without rows.\<close>
  "read_headers table =
     (case table of
        [] \<Rightarrow> Inl Index_error
      | first # _ \<Rightarrow> Inr (stripped_texts (find_all [Th] first)))"

fun extract_rows :: "ustr list \<Rightarrow> html_table \<Rightarrow> ustr list list \<Rightarrow> ustr list list" where
  \<comment> \<open>Lines 56 to 66, the list \<open>rows\<close> carried through the loop.\<close>
  "extract_rows headers [] rows = rows"
| "extract_rows headers (row # rest) rows =
     (let cols = stripped_texts (find_all [Td, Th] row)
      in extract_rows headers rest
           (if length cols \<ge> length headers then rows @ [take (length headers) cols] else rows))"

section \<open>The data frame\<close>

record data_frame =
  columns :: "ustr list"
  rows :: "ustr list list"

definition DataFrame :: "ustr list list \<Rightarrow> ustr list \<Rightarrow> exn + data_frame" where
  \<comment> \<open>\<open>pd.DataFrame(rows, columns=headers)\<close>: rows as wide as the header list make
      the frame. Data of another width is a \<open>ValueError\<close> (a ragged list is put under
      that case as well; the row loop never builds one).\<close>
  "DataFrame rs headers =
     (if list_all (\<lambda>r. length r = length headers) rs
      then Inr \<lparr>columns = headers, rows = rs\<rparr> else Inl Value_error)"

definition at_label :: "ustr list \<Rightarrow> ustr \<Rightarrow> ustr list \<Rightarrow> ustr list" where
  \<comment> \<open>The values of a row that stand under a label; labels may repeat.\<close>
  "at_label cols name r = map snd (filter (\<lambda>p. fst p = name) (zip cols r))"

definition str_contains ::
  "unicode_data \<Rightarrow> data_frame \<Rightarrow> ustr \<Rightarrow> ustr \<Rightarrow> exn + bool list" where
  \<comment> \<open>\<open>df[name].str.lower().str.contains(pat, na=False)\<close>: a label that repeats selects a
      frame, which has no \<open>str\<close> accessor; a missing value gives \<open>False\<close>.\<close>
  "str_contains ud frame name pat =
     (if count_list (columns frame) name = 0 then Inl Key_error
      else if count_list (columns frame) name > 1 then Inl Attribute_error
      else
        (case re_parse pat of
           Inl f \<Rightarrow> Inl (Re_error f)
         | Inr r \<Rightarrow>
             Inr (map (\<lambda>row. case at_label (columns frame) name row of
                                [v] \<Rightarrow> search_from True r (lower ud v)
                              | _ \<Rightarrow> False)
                    (rows frame))))"

definition select_rows :: "data_frame \<Rightarrow> bool list \<Rightarrow> data_frame" where
  \<comment> \<open>\<open>df[mask]\<close> builds a new frame from the rows the mask keeps.\<close>
  "select_rows frame keep =
     \<lparr>columns = columns frame, rows = map fst (filter snd (zip (rows frame) keep))\<rparr>"

definition frame_empty :: "data_frame \<Rightarrow> bool" where
  "frame_empty frame = (columns frame = [] \<or> rows frame = [])"

section \<open>The world outside the script\<close>

datatype tts_outcome = Spoken | Say_raised | Run_and_wait_raised

datatype fetch_result =
  Conn_error ustr
  | Timeout ustr
  | Reply nat ustr ustr "html_table option"

text \<open>
  A reply carries its status code, its reason phrase, the address it came from and what
  \<open>soup.find\<close> gets out of its body. The world holds the interpreter's Unicode
  tables and says whether \<open>pyttsx3.init()\<close>
  returns an engine, how the engine fares on a given sentence, what the one request
  brings, whether each file can be written (a failed write carries the text of its
  exception), how pandas prints several values under one label, and the lines typed at
  the prompt.
\<close>

record world =
  unicode :: unicode_data
  engine_ready :: bool
  tts :: "ustr \<Rightarrow> tts_outcome"
  response :: fetch_result
  csv_write :: "ustr option"
  xlsx_write :: "ustr option"
  series_text :: "ustr \<Rightarrow> ustr list \<Rightarrow> ustr"
  typed :: "ustr list"

datatype event =
  Printed ustr
  | Heading
  | Announced ustr
  | Voiced ustr
  | Http_get
  | To_csv bool
  | To_excel bool
  | Prompted
  | Printed_rows "ustr list" "ustr list list"
  | Traceback exn

text \<open>
  What the script does that can be observed. \<open>Announced\<close> is the line \<open>speak\<close>
  prints and \<open>Voiced\<close> the sentence the engine gets through; \<open>Heading\<close> and
  \<open>Prompted\<close> are the fixed lines 73 and 93, which start with a pictograph;
  \<open>Printed_rows\<close> stands for the rendering of the first matches by \<open>to_string\<close>;
  \<open>To_csv\<close> and \<open>To_excel\<close> are the two calls, with whether the file got written.
\<close>

datatype ending = Exit nat | Uncaught exn | Finished

section \<open>The script\<close>

definition speak :: "world \<Rightarrow> ustr \<Rightarrow> event list" where
  \<comment> \<open>Lines 11 to 20: the line is printed, then the engine is tried; whatever
      \<open>say\<close> or \<open>runAndWait\<close> raises is passed over.\<close>
  "speak w t =
     Announced t #
     (case tts w t of
        Spoken \<Rightarrow> [Voiced t]
      | Say_raised \<Rightarrow> []
      | Run_and_wait_raised \<Rightarrow> [])"

definition raise_for_status :: "nat \<Rightarrow> ustr \<Rightarrow> ustr \<Rightarrow> ustr option" where
  \<comment> \<open>The message of the \<open>HTTPError\<close> that \<open>Response.raise_for_status\<close> raises, if any.\<close>
  "raise_for_status status reason url =
     (if 400 \<le> status \<and> status < 500
      then Some (str_nat status @ (u '' Client Error: '') @ reason @ (u '' for url: '') @ url)
      else if 500 \<le> status \<and> status < 600
      then Some (str_nat status @ (u '' Server Error: '') @ reason @ (u '' for url: '') @ url)
      else None)"

definition fatal :: "ustr \<Rightarrow> ustr" where
  "fatal detail = u ''FATAL ERROR: Could not connect to Wikipedia. Details: '' @ detail"

definition prepend :: "event list \<Rightarrow> event list \<times> ending \<Rightarrow> event list \<times> ending" where
  "prepend ev r = (ev @ fst r, snd r)"

definition print_columns :: "data_frame \<Rightarrow> event list" where
  \<comment> \<open>Lines 72 to 76.\<close>
  "print_columns frame =
     [Printed (newline # replicate 40 (of_char CHR ''='')), Heading]
     @ map (\<lambda>(i, col). Printed ((u ''  '') @ str_nat (i + 1) @ (u ''. '') @ [apostrophe] @ col @ [apostrophe]))
         (enumerate 0 (columns frame))
     @ [Printed (replicate 40 (of_char CHR ''='') @ [newline])]"

definition warning :: "ustr \<Rightarrow> ustr" where
  "warning detail = u ''WARNING: Could not save files. Details: '' @ detail"

definition export_block :: "world \<Rightarrow> event list" where
  \<comment> \<open>Lines 79 to 84: both writes stand in one \<open>try\<close>.\<close>
  "export_block w =
     (case csv_write w of
        Some detail \<Rightarrow> To_csv False # speak w (warning detail)
      | None \<Rightarrow>
          To_csv True #
          (case xlsx_write w of
             Some detail \<Rightarrow> To_excel False # speak w (warning detail)
           | None \<Rightarrow>
               To_excel True #
               speak w (u ''Data successfully structured and saved as CSV and Excel files.'')))"

subsection \<open>The search loop\<close>

text \<open>
  The names the loop binds: \<open>df\<close> and \<open>name_col\<close> are bound before it, \<open>search\<close>,
  \<open>pattern\<close> and \<open>result\<close> by its body (\<open>row\<close>, \<open>country_info\<close> and \<open>item\<close> are
  read off \<open>result\<close> within one pass).
\<close>

record session =
  df :: data_frame
  name_col :: ustr
  search :: "ustr option"
  pattern :: "ustr option"
  result :: "data_frame option"

datatype control = Break | Continue | Raise exn

definition row_item :: "world \<Rightarrow> ustr list \<Rightarrow> ustr list \<Rightarrow> ustr \<Rightarrow> exn + ustr" where
  \<comment> \<open>\<open>row[col]\<close> as an f-string prints it: the value, or pandas' rendering of the
      several values a repeated label selects.\<close>
  "row_item w cols r col =
     (case at_label cols col r of
        [] \<Rightarrow> Inl Key_error
      | [v] \<Rightarrow> Inr v
      | vs \<Rightarrow> Inr (series_text w col vs))"

fun country_info :: "world \<Rightarrow> ustr list \<Rightarrow> ustr list \<Rightarrow> ustr list \<Rightarrow> exn + ustr list" where
  \<comment> \<open>Line 120, one entry for each column of \<open>df\<close>.\<close>
  "country_info w cols r [] = Inr []"
| "country_info w cols r (col # rest) =
     (case row_item w cols r col of
        Inl e \<Rightarrow> Inl e
      | Inr v \<Rightarrow>
          (case country_info w cols r rest of
             Inl e \<Rightarrow> Inl e
           | Inr items \<Rightarrow> Inr ((col @ (u '': '') @ v) # items)))"

definition report :: "world \<Rightarrow> session \<Rightarrow> data_frame \<Rightarrow> ustr \<Rightarrow> event list \<times> control" where
  \<comment> \<open>Lines 110 to 129.\<close>
  "report w st res query =
     (if \<not> frame_empty res then
        (let shown =
               [Printed (newline # (u ''--- Top Matching Results ---'')),
                Printed_rows (columns res) (take 5 (rows res)),
                Printed (replicate 30 (of_char CHR ''-''))]
         in case rows res of
              [] \<Rightarrow> (shown, Raise Index_error)
            | r # _ \<Rightarrow>
                (case country_info w (columns res) r (columns (df st)) of
                   Inl e \<Rightarrow> (shown, Raise e)
                 | Inr info \<Rightarrow>
                     (case row_item w (columns res) r (name_col st) of
                        Inl e \<Rightarrow> (shown, Raise e)
                      | Inr name \<Rightarrow>
                          (shown
                           @ speak w ((u ''Found information for '') @ name @ (u ''.''))
                           @ concat (map (speak w) (drop 1 info))
                           @ speak w ((u ''Search complete. '') @ str_nat (length (rows res))
                                      @ (u '' total result(s) found for '') @ [apostrophe] @ query
                                      @ [apostrophe] @ (u ''.'')),
                           Continue))))
      else
        (speak w ((u ''No matching record found for '') @ [apostrophe] @ query @ [apostrophe]
                  @ (u ''. Try a shorter, more general name.'')),
         Continue))"

definition loop_body :: "world \<Rightarrow> session \<Rightarrow> ustr \<Rightarrow> event list \<times> control \<times> session" where
  \<comment> \<open>Lines 93 to 129 on one line of input.\<close>
  "loop_body w st line =
     (let query = strip line;
          st1 = st\<lparr>search := Some query\<rparr>
      in if lower (unicode w) query = u ''exit'' then (speak w (u ''Session terminated. Goodbye!''), Break, st1)
         else if query = [] then (speak w (u ''Please enter a country name to search.''), Continue, st1)
         else
           (let pat = re_escape (lower (unicode w) query);
                st2 = st1\<lparr>pattern := Some pat\<rparr>
            in case str_contains (unicode w) (df st2) (name_col st2) pat of
                 Inl e \<Rightarrow> ([], Raise e, st2)
               | Inr keep \<Rightarrow>
                   (let res = select_rows (df st2) keep;
                        st3 = st2\<lparr>result := Some res\<rparr>
                    in case report w st3 res query of (ev, c) \<Rightarrow> (ev, c, st3))))"

fun search_loop :: "world \<Rightarrow> session \<Rightarrow> ustr list \<Rightarrow> event list \<times> ending \<times> session" where
  \<comment> \<open>\<open>while True\<close> over the lines the console delivers; \<open>input\<close> raises at their end.\<close>
  "search_loop w st [] = ([Prompted], Uncaught EOF_error, st)"
| "search_loop w st (line # rest) =
     (case loop_body w st line of
        (ev, Break, st') \<Rightarrow> (Prompted # ev, Finished, st')
      | (ev, Raise e, st') \<Rightarrow> (Prompted # ev, Uncaught e, st')
      | (ev, Continue, st') \<Rightarrow>
          (case search_loop w st' rest of
             (ev', fin, st'') \<Rightarrow> (Prompted # ev @ ev', fin, st'')))"

subsection \<open>The script from top to bottom\<close>

definition interactive :: "world \<Rightarrow> data_frame \<Rightarrow> event list \<times> ending" where
  \<comment> \<open>Lines 89 to 129; \<open>df.columns[0]\<close> raises on a frame without columns.\<close>
  "interactive w frame =
     (case columns frame of
        [] \<Rightarrow> ([], Uncaught Index_error)
      | first # _ \<Rightarrow>
          (case search_loop w
                  \<lparr>df = frame, name_col = first, search = None, pattern = None, result = None\<rparr>
                  (typed w) of
             (ev, fin, _) \<Rightarrow>
               (speak w ((u ''Starting interactive search. Searching on the column: '')
                         @ [apostrophe] @ first @ [apostrophe] @ (u ''.'')) @ ev,
                fin)))"

definition store :: "world \<Rightarrow> data_frame \<Rightarrow> event list \<times> ending" where
  \<comment> \<open>Lines 72 to 84, then the search.\<close>
  "store w frame = prepend (print_columns frame @ export_block w) (interactive w frame)"

definition parse :: "world \<Rightarrow> html_table option \<Rightarrow> event list \<times> ending" where
  \<comment> \<open>Lines 40 to 70; the handler of line 51 takes \<open>IndexError\<close> only.\<close>
  "parse w page =
     (case page of
        None \<Rightarrow>
          (speak w (u ''ERROR: Could not find the expected data table on the Wikipedia page.''),
           Exit 1)
      | Some table \<Rightarrow>
          (case read_headers table of
             Inl e \<Rightarrow>
               (if e = Index_error
                then (speak w (u ''ERROR: Table appears empty or headers could not be read.''), Exit 1)
                else ([], Uncaught e))
           | Inr headers \<Rightarrow>
               (case DataFrame (extract_rows headers (drop 1 table) []) headers of
                  Inl e \<Rightarrow> ([], Uncaught e)
                | Inr frame \<Rightarrow> store w frame)))"

definition acquire :: "world \<Rightarrow> event list \<times> ending" where
  \<comment> \<open>Lines 27 to 36: one request; the handler takes every \<open>RequestException\<close>.\<close>
  "acquire w =
     (case response w of
        Conn_error detail \<Rightarrow> (Http_get # speak w (fatal detail), Exit 1)
      | Timeout detail \<Rightarrow> (Http_get # speak w (fatal detail), Exit 1)
      | Reply status reason url page \<Rightarrow>
          (case raise_for_status status reason url of
             Some msg \<Rightarrow> (Http_get # speak w (fatal msg), Exit 1)
           | None \<Rightarrow> prepend [Http_get] (parse w page)))"

definition start_text :: ustr where
  "start_text = u ''Starting data fetch from Wikipedia...''"

definition run :: "world \<Rightarrow> event list \<times> ending" where
  \<comment> \<open>Line 9 builds the engine before anything else, outside every handler.\<close>
  "run w =
     (if \<not> engine_ready w then ([], Uncaught Engine_error)
      else prepend (speak w start_text) (acquire w))"

definition process :: "world \<Rightarrow> event list \<times> nat" where
  \<comment> \<open>What the interpreter makes of the script's end: \<open>exit(n)\<close> gives status \<open>n\<close>, an
      exception nobody handles is printed as a traceback and gives status 1.\<close>
  "process w =
     (case run w of
        (ev, Exit n) \<Rightarrow> (ev, n)
      | (ev, Uncaught e) \<Rightarrow> (ev @ [Traceback e], 1)
      | (ev, Finished) \<Rightarrow> (ev, 0))"

section \<open>The properties in the terms of the description\<close>

text \<open>
  The cells the row loop reads from one table row (line 60 and 61), and the test a row
  passes to be a match: the value of its entity column, put in lower case as a whole,
  contains the query, put in lower case as a whole.
\<close>

definition row_cells :: "cell list \<Rightarrow> ustr list" where
  "row_cells row = stripped_texts (find_all [Td, Th] row)"

definition contains_lowered :: "unicode_data \<Rightarrow> ustr \<Rightarrow> ustr \<Rightarrow> bool" where
  "contains_lowered ud query v = sublist (lower ud query) (lower ud v)"

definition entity_matches :: "unicode_data \<Rightarrow> ustr \<Rightarrow> ustr list \<Rightarrow> bool" where
  "entity_matches ud query row =
     (case row of [] \<Rightarrow> False | v # _ \<Rightarrow> contains_lowered ud query v)"


definition header_row_unreadable :: "html_table \<Rightarrow> bool" where
  \<comment> \<open>No first row, or a first row without header cells.\<close>
  "header_row_unreadable table =
     (case table of [] \<Rightarrow> True | first # _ \<Rightarrow> find_all [Th] first = [])"

definition fetch_fails :: "world \<Rightarrow> bool" where
  \<comment> \<open>The request raises, or the reply has a status from 400 to 599.\<close>
  "fetch_fails w =
     (case response w of
        Conn_error _ \<Rightarrow> True
      | Timeout _ \<Rightarrow> True
      | Reply status _ _ _ \<Rightarrow> 400 \<le> status \<and> status < 600)"

definition failure_detail :: "world \<Rightarrow> ustr" where
  \<comment> \<open>The text of the exception the handler of line 32 receives.\<close>
  "failure_detail w =
     (case response w of
        Conn_error detail \<Rightarrow> detail
      | Timeout detail \<Rightarrow> detail
      | Reply status reason url _ \<Rightarrow>
          (case raise_for_status status reason url of Some msg \<Rightarrow> msg | None \<Rightarrow> []))"

subsection \<open>A sample page and sample runs\<close>

text \<open>
  An excerpt of the Unicode tables for the sample runs: the lower-case mapping of the
  capitals of ASCII, of Latin-1 and of the Greek alphabet from alpha to omega, the cased
  letters of these three ranges, and the ASCII and Latin-1 code points that case mapping
  ignores. The sample runs use no other code point.
\<close>

definition sample_unicode :: unicode_data where
  "sample_unicode =
     \<lparr>to_lower_full =
        (\<lambda>c. if (65 \<le> c \<and> c \<le> 90) \<or> (192 \<le> c \<and> c \<le> 222 \<and> c \<noteq> 215)
                   \<or> (913 \<le> c \<and> c \<le> 937 \<and> c \<noteq> 930)
                then [c + 32] else [c]),
      cased =
        (\<lambda>c. (65 \<le> c \<and> c \<le> 90) \<or> (97 \<le> c \<and> c \<le> 122) \<or> c = 170 \<or> c = 181 \<or> c = 186
              \<or> (192 \<le> c \<and> c \<le> 255 \<and> c \<noteq> 215 \<and> c \<noteq> 247)
              \<or> (913 \<le> c \<and> c \<le> 937 \<and> c \<noteq> 930) \<or> (945 \<le> c \<and> c \<le> 969)),
      case_ignorable =
        (\<lambda>c. c \<in> set [39, 46, 58, 94, 96, 168, 173, 175, 180, 183, 184])\<rparr>"

definition demo_table :: html_table where
  "demo_table =
     [[Cell Th (u ''Country''), Cell Th (u '' Active Personnel '')],
      [Cell Th (u ''France''), Cell Td (u ''200000'')],
      [Cell Td (u ''Orphan'')],
      [Cell Td (u ''Germany''), Cell Td (u ''180000''), Cell Td (u ''extra'')]]"

definition demo_frame :: data_frame where
  "demo_frame =
     \<lparr>columns = [u ''Country'', u ''Active Personnel''],
      rows = [[u ''France'', u ''200000''], [u ''Germany'', u ''180000'']]\<rparr>"

definition demo_session :: session where
  "demo_session =
     \<lparr>df = demo_frame, name_col = u ''Country'', search = None, pattern = None, result = None\<rparr>"

definition demo_world :: world where
  "demo_world =
     \<lparr>unicode = sample_unicode, engine_ready = True, tts = (\<lambda>_. Spoken),
      response = Reply 200 (u ''OK'') (u ''https://en.wikipedia.org/'') (Some demo_table),
      csv_write = None, xlsx_write = None,
      series_text = (\<lambda>_ vs. concat vs),
      typed = [u ''franc'', u ''exit'']\<rparr>"



definition not_found_world :: world where
  "not_found_world =
     demo_world\<lparr>response := Reply 404 (u ''Not Found'') (u ''https://en.wikipedia.org/'') None\<rparr>"

definition multiple_choices_world :: world where
  "multiple_choices_world =
     demo_world\<lparr>response := Reply 300 (u ''Multiple Choices'') (u ''https://en.wikipedia.org/'')
                               (Some demo_table),
                 typed := [u ''exit'']\<rparr>"

definition headerless_world :: world where
  "headerless_world =
     demo_world\<lparr>response := Reply 200 (u ''OK'') (u ''https://en.wikipedia.org/'')
                               (Some [[Cell Td (u ''France''), Cell Td (u ''200000'')],
                                      [Cell Td (u ''Germany''), Cell Td (u ''180000'')]])\<rparr>"

definition empty_table_world :: world where
  "empty_table_world =
     demo_world\<lparr>response := Reply 200 (u ''OK'') (u ''https://en.wikipedia.org/'') (Some [])\<rparr>"

definition headless_world :: world where
  "headless_world = demo_world\<lparr>engine_ready := False\<rparr>"

definition full_disk_world :: world where
  "full_disk_world = demo_world\<lparr>csv_write := Some (u ''No space left on device'')\<rparr>"

section \<open>Escaped patterns are read as text\<close>

lemma escaped_not_alnum: "c \<in> set escaped_chars \<Longrightarrow> \<not> ascii_alnum c"
  by (auto simp: escaped_chars_def ascii_alnum_def backslash_def u_def)

lemma plain_not_special:
  assumes "c \<notin> set escaped_chars"
  shows "c \<noteq> backslash" "c \<noteq> of_char CHR ''.''" "c \<noteq> of_char CHR ''^''"
    "c \<noteq> of_char CHR ''$''"
    "c \<notin> set (u ''[{()*+?|'')"
  using assms by (auto simp: escaped_chars_def u_def)

lemma re_parse_escape: "re_parse (re_escape q) = Inr (map Lit q)"
proof (induction q)
  case Nil
  show ?case by (simp add: re_escape_def)
next
  case (Cons c q)
  have step:
    "re_escape (c # q) = (if c \<in> set escaped_chars then [backslash, c] else [c]) @ re_escape q"
    by (simp add: re_escape_def)
  show ?case
  proof (cases "c \<in> set escaped_chars")
    case True
    then show ?thesis
      using Cons.IH escaped_not_alnum [OF True] by (simp add: step cons_item_def)
  next
    case False
    from plain_not_special [OF False] Cons.IH False show ?thesis
      by (simp add: step cons_item_def)
  qed
qed

lemma match_here_literal: "match_here b (map Lit q) s = prefix q s"
  by (induction q arbitrary: b s) (auto split: list.splits simp: prefix_Cons)

lemma search_from_literal: "search_from b (map Lit q) s = sublist q s"
  by (induction s arbitrary: b) (auto simp: match_here_literal sublist_Cons_right)


text \<open>
  Left unescaped, the same characters would act as pattern syntax: the dot stands for any
  character, the dollar for the end, and an open parenthesis alone is no pattern.
\<close>

lemma metacharacters_unescaped:
  "re_search (u ''a.c'') (u ''abc'') = Inr True \<and> re_search (re_escape (u ''a.c'')) (u ''abc'') = Inr False
   \<and> re_search (u ''c$'') (u ''abc'') = Inr True \<and> re_search (re_escape (u ''c$'')) (u ''abc'') = Inr False
   \<and> re_search (re_escape (u ''c$'')) (u ''abc$d'') = Inr True
   \<and> re_search (u ''('') (u ''a(b'') = Inl Beyond_fragment
   \<and> re_search (re_escape (u ''('')) (u ''a(b'') = Inr True"
  by code_simp

section \<open>Every stored row is as wide as the header\<close>

lemma extract_rows_acc:
  "extract_rows headers table acc =
     acc @ map (take (length headers))
             (filter (\<lambda>cols. length headers \<le> length cols) (map row_cells table))"
  by (induction table arbitrary: acc) (simp_all add: row_cells_def Let_def)

text \<open>
  C1. For a table whose first row has N header cells, the rows stored are the cell lists of
  the later rows that have at least N cells, each cut to its first N cells, in document
  order; so every stored row has exactly N cells, and the frame is built from them.
\<close>

theorem stored_rows_have_header_width:
  assumes "read_headers table = Inr headers"
  shows "extract_rows headers (drop 1 table) [] =
           map (take (length headers))
             (filter (\<lambda>cols. length headers \<le> length cols) (map row_cells (drop 1 table)))
         \<and> (\<forall>r \<in> set (extract_rows headers (drop 1 table) []). length r = length headers)
         \<and> DataFrame (extract_rows headers (drop 1 table) []) headers =
             Inr \<lparr>columns = headers, rows = extract_rows headers (drop 1 table) []\<rparr>"
proof -
  let ?rows = "extract_rows headers (drop 1 table) []"
  have shape: "?rows = map (take (length headers))
             (filter (\<lambda>cols. length headers \<le> length cols) (map row_cells (drop 1 table)))"
    by (simp add: extract_rows_acc)
  have width: "\<forall>r \<in> set ?rows. length r = length headers"
    unfolding shape by auto
  then have "list_all (\<lambda>r. length r = length headers) ?rows"
    by (simp add: list_all_iff)
  then have "DataFrame ?rows headers = Inr \<lparr>columns = headers, rows = ?rows\<rparr>"
    by (simp add: DataFrame_def)
  with shape width show ?thesis by blast
qed

theorem stored_rows_have_header_width_witness:
  "read_headers demo_table = Inr [u ''Country'', u ''Active Personnel'']
   \<and> extract_rows [u ''Country'', u ''Active Personnel''] (drop 1 demo_table) [] =
       [[u ''France'', u ''200000''], [u ''Germany'', u ''180000'']]
   \<and> DataFrame (extract_rows [u ''Country'', u ''Active Personnel''] (drop 1 demo_table) [])
         [u ''Country'', u ''Active Personnel''] =
       Inr \<lparr>columns = [u ''Country'', u ''Active Personnel''],
            rows = [[u ''France'', u ''200000''], [u ''Germany'', u ''180000'']]\<rparr>"
proof -
  have h: "read_headers demo_table = Inr [u ''Country'', u ''Active Personnel'']"
    by (simp add: demo_table_def read_headers_def find_all_def stripped_texts_def strip_def
        isspace_def u_def)
  have r: "extract_rows [u ''Country'', u ''Active Personnel''] (drop 1 demo_table) [] =
       [[u ''France'', u ''200000''], [u ''Germany'', u ''180000'']]"
    by (simp add: demo_table_def find_all_def stripped_texts_def strip_def isspace_def u_def)
  from stored_rows_have_header_width [OF h]
  have "DataFrame (extract_rows [u ''Country'', u ''Active Personnel''] (drop 1 demo_table) [])
         [u ''Country'', u ''Active Personnel''] =
       Inr \<lparr>columns = [u ''Country'', u ''Active Personnel''],
            rows = extract_rows [u ''Country'', u ''Active Personnel''] (drop 1 demo_table) []\<rparr>"
    by (elim conjE)
  with h r show ?thesis by (simp only: simp_thms)
qed

section \<open>The match set of a query\<close>

lemma at_label_absent: "name \<notin> set cols \<Longrightarrow> at_label cols name r = []"
  by (auto simp: at_label_def filter_empty_conv dest: set_zip_leftD)

lemma at_label_first:
  "name \<notin> set others \<Longrightarrow> at_label (name # others) name (v # cells) = [v]"
  using at_label_absent [of name others cells] by (simp add: at_label_def)

lemma at_label_no_cells: "at_label cols name [] = []"
  by (simp add: at_label_def)

lemma count_list_first: "name \<notin> set others \<Longrightarrow> count_list (name # others) name = 1"
  by (simp add: count_list_0_iff)


lemma str_contains_entity:
  assumes "columns frame = name # others" and "name \<notin> set others"
  shows "str_contains ud frame name (re_escape (lower ud query)) =
           Inr (map (entity_matches ud query) (rows frame))"
proof -
  have "(case at_label (name # others) name row of
           [v] \<Rightarrow> search_from True (map Lit (lower ud query)) (lower ud v)
         | _ \<Rightarrow> False) = entity_matches ud query row" for row
    using assms(2)
    by (cases row)
      (simp_all add: at_label_no_cells at_label_first entity_matches_def contains_lowered_def
        search_from_literal)
  then show ?thesis
    using assms by (simp add: str_contains_def count_list_first re_parse_escape)
qed







section \<open>One pass of the search loop\<close>

lemma report_not_break: "snd (report w st res query) \<noteq> Break"
  by (simp add: report_def Let_def split: list.splits sum.splits)

lemma loop_body_break:
  "(fst (snd (loop_body w st line)) = Break) = (lower (unicode w) (strip line) = u ''exit'')"
proof (cases "lower (unicode w) (strip line) = u ''exit''")
  case True
  then show ?thesis by (simp add: loop_body_def Let_def)
next
  case False
  have "fst (snd (loop_body w st line)) \<noteq> Break"
    using False report_not_break
    by (auto simp: loop_body_def Let_def split: sum.splits prod.splits)
      (metis snd_conv)
  with False show ?thesis by simp
qed

lemma search_loop_finished:
  "fst (snd (search_loop w st lines)) = Finished \<Longrightarrow> \<exists>l \<in> set lines. lower (unicode w) (strip l) = u ''exit''"
proof (induction lines arbitrary: st)
  case Nil
  then show ?case by simp
next
  case (Cons line rest)
  obtain ev c st' where b: "loop_body w st line = (ev, c, st')"
    by (cases "loop_body w st line") auto
  show ?case
  proof (cases c)
    case Break
    with b loop_body_break [of w st line] show ?thesis by simp
  next
    case Continue
    obtain ev' fin st'' where r: "search_loop w st' rest = (ev', fin, st'')"
      by (cases "search_loop w st' rest") auto
    from Cons.prems b Continue r have "fst (snd (search_loop w st' rest)) = Finished"
      by simp
    from Cons.IH [OF this] show ?thesis by auto
  next
    case (Raise e)
    with Cons.prems b show ?thesis by simp
  qed
qed

text \<open>
  C7. A pass of the loop breaks out exactly when the trimmed line, put in lower case, is
  the word exit. It then says goodbye and does nothing else: no pattern is built and no
  result is computed, whatever the table holds, and the loop is over. A loop that ended
  this way has read such a line.
\<close>

theorem exit_word_ends_the_loop:
  "(fst (snd (loop_body w st line)) = Break) = (lower (unicode w) (strip line) = u ''exit'')
   \<and> (lower (unicode w) (strip line) = u ''exit'' \<longrightarrow>
        loop_body w st line =
          (speak w (u ''Session terminated. Goodbye!''), Break, st\<lparr>search := Some (strip line)\<rparr>)
        \<and> search_loop w st (line # rest) =
          (Prompted # speak w (u ''Session terminated. Goodbye!''), Finished,
           st\<lparr>search := Some (strip line)\<rparr>))
   \<and> (fst (snd (search_loop w st lines)) = Finished
        \<longrightarrow> (\<exists>l \<in> set lines. lower (unicode w) (strip l) = u ''exit''))"
proof -
  have "loop_body w st line =
          (speak w (u ''Session terminated. Goodbye!''), Break, st\<lparr>search := Some (strip line)\<rparr>)"
    if "lower (unicode w) (strip line) = u ''exit''"
    using that by (simp add: loop_body_def Let_def)
  then show ?thesis
    using loop_body_break [of w st line] search_loop_finished [of w st lines] by auto
qed

theorem exit_word_ends_the_loop_witness:
  "lower (unicode demo_world) (strip (u '' ExIt '')) = u ''exit''
   \<and> loop_body demo_world demo_session (u '' ExIt '') =
       (speak demo_world (u ''Session terminated. Goodbye!''), Break,
        demo_session\<lparr>search := Some (u ''ExIt'')\<rparr>)
   \<and> search_loop demo_world demo_session [u '' ExIt '', u ''franc''] =
       (Prompted # speak demo_world (u ''Session terminated. Goodbye!''), Finished,
        demo_session\<lparr>search := Some (u ''ExIt'')\<rparr>)"
proof -
  have s: "strip (u '' ExIt '') = u ''ExIt''"
    by (simp add: strip_def isspace_def u_def)
  have l: "lower (unicode demo_world) (u ''ExIt'') = u ''exit''"
    by (simp add: lower_def u_def capital_sigma_def sample_unicode_def demo_world_def)
  have h: "lower (unicode demo_world) (strip (u '' ExIt '')) = u ''exit''"
    by (simp add: s l)
  from exit_word_ends_the_loop [of demo_world demo_session "u '' ExIt ''" "[u ''franc'']" "[]"] h
  have "loop_body demo_world demo_session (u '' ExIt '') =
          (speak demo_world (u ''Session terminated. Goodbye!''), Break,
           demo_session\<lparr>search := Some (strip (u '' ExIt ''))\<rparr>)
        \<and> search_loop demo_world demo_session [u '' ExIt '', u ''franc''] =
          (Prompted # speak demo_world (u ''Session terminated. Goodbye!''), Finished,
           demo_session\<lparr>search := Some (strip (u '' ExIt ''))\<rparr>)"
    by blast
  with h show ?thesis by (simp only: s simp_thms)
qed

text \<open>
  C8. A line that is empty after trimming makes the pass ask again and go on: nothing is
  searched, the table, the pattern and the last result stay as they were (the name
  \<open>search\<close> now holds the empty ustr), and the loop continues with the next line.
\<close>

theorem empty_input_reprompts:
  assumes "strip line = []"
  shows "loop_body w st line =
           (speak w (u ''Please enter a country name to search.''), Continue,
            st\<lparr>search := Some []\<rparr>)
     \<and> search_loop w st (line # rest) =
           (case search_loop w (st\<lparr>search := Some []\<rparr>) rest of
              (ev, fin, st') \<Rightarrow>
                (Prompted # speak w (u ''Please enter a country name to search.'') @ ev, fin, st'))"
proof -
  have "lower (unicode w) (strip line) \<noteq> u ''exit''"
    using assms by (simp add: lower_def u_def)
  then have b: "loop_body w st line =
           (speak w (u ''Please enter a country name to search.''), Continue,
            st\<lparr>search := Some []\<rparr>)"
    using assms by (simp add: loop_body_def Let_def)
  then show ?thesis by (simp split: prod.splits)
qed

theorem empty_input_reprompts_witness:
  "strip (u ''   '') = []
   \<and> loop_body demo_world demo_session (u ''   '') =
       (speak demo_world (u ''Please enter a country name to search.''), Continue,
        demo_session\<lparr>search := Some []\<rparr>)"
proof -
  have h: "strip (u ''   '') = []"
    by (simp add: strip_def isspace_def u_def)
  from empty_input_reprompts [OF h, of demo_world demo_session "[]"] h
  show ?thesis by blast
qed

section \<open>The table is only read\<close>

lemma loop_body_df: "df (snd (snd (loop_body w st line))) = df st"
  by (simp add: loop_body_def Let_def split: sum.splits prod.splits)

lemma loop_body_name_col: "name_col (snd (snd (loop_body w st line))) = name_col st"
  by (simp add: loop_body_def Let_def split: sum.splits prod.splits)

lemma search_loop_df:
  "df (snd (snd (search_loop w st lines))) = df st
   \<and> name_col (snd (snd (search_loop w st lines))) = name_col st"
proof (induction lines arbitrary: st)
  case Nil
  show ?case by simp
next
  case (Cons line rest)
  obtain ev c st' where b: "loop_body w st line = (ev, c, st')"
    by (cases "loop_body w st line") auto
  with loop_body_df [of w st line] loop_body_name_col [of w st line]
  have keep: "df st' = df st" "name_col st' = name_col st" by simp_all
  show ?case
  proof (cases c)
    case Continue
    with b Cons.IH [of st'] keep show ?thesis by (auto split: prod.splits)
  qed (use b keep in simp_all)
qed

lemma loop_body_result:
  "result (snd (snd (loop_body w st line))) = result st
   \<or> (\<exists>keep. result (snd (snd (loop_body w st line))) = Some (select_rows (df st) keep))"
  by (auto simp: loop_body_def Let_def split: sum.splits prod.splits)

text \<open>
  C9. Neither one pass nor any run of the loop over any lines changes \<open>df\<close>: its columns
  and cells after are those before. What a pass leaves in \<open>result\<close> is the old value or a
  frame newly built from rows of \<open>df\<close>.
\<close>

theorem base_table_is_never_changed:
  "df (snd (snd (loop_body w st line))) = df st
   \<and> df (snd (snd (search_loop w st lines))) = df st
   \<and> (result (snd (snd (loop_body w st line))) = result st
      \<or> (\<exists>keep. result (snd (snd (loop_body w st line))) = Some (select_rows (df st) keep)))"
  using loop_body_df [of w st line] search_loop_df [of w st lines] loop_body_result [of w st line]
  by blast

theorem base_table_is_never_changed_witness:
  "df (snd (snd (search_loop demo_world demo_session [u ''franc'', u ''xyz'', [], u ''exit''])))
     = demo_frame
   \<and> df (snd (snd (loop_body demo_world demo_session (u ''franc'')))) = demo_frame"
  using base_table_is_never_changed
    [of demo_world demo_session "(u ''franc'')" "[u ''franc'', u ''xyz'', [], u ''exit'']"]
  by (simp add: demo_session_def)

section \<open>Saving the files\<close>

lemma speak_events: "set (speak w t) \<subseteq> {Announced t, Voiced t}"
  by (auto simp: speak_def split: tts_outcome.splits)

lemma speak_frame: "speak (w\<lparr>xlsx_write := x\<rparr>) t = speak w t"
  by (simp add: speak_def)

text \<open>
  C10. When the CSV write raises, the Excel write is not called: the block consists of the
  failed CSV call and the warning, whatever the Excel write would have done, and the script
  goes on to the search. When only the Excel write raises, the block is the CSV call, the
  failed Excel call and the warning, and the script goes on as well.
\<close>

theorem failed_csv_write_skips_excel:
  "(csv_write w = Some detail \<longrightarrow>
       export_block w = To_csv False # speak w (warning detail)
       \<and> export_block (w\<lparr>xlsx_write := x\<rparr>) = export_block w
       \<and> (\<forall>ok. To_excel ok \<notin> set (export_block w))
       \<and> store w frame =
           prepend (print_columns frame @ To_csv False # speak w (warning detail))
             (interactive w frame))
   \<and> (csv_write w = None \<and> xlsx_write w = Some detail \<longrightarrow>
       export_block w = To_csv True # To_excel False # speak w (warning detail)
       \<and> store w frame =
           prepend (print_columns frame @ To_csv True # To_excel False # speak w (warning detail))
             (interactive w frame))"
proof -
  have quiet: "To_excel ok \<notin> set (speak w t)" for ok t
    using speak_events [of w t] by auto
  show ?thesis
    by (auto simp: export_block_def store_def speak_frame quiet)
qed

theorem failed_csv_write_skips_excel_witness:
  "csv_write full_disk_world = Some (u ''No space left on device'')
   \<and> xlsx_write full_disk_world = None
   \<and> export_block full_disk_world =
       [To_csv False,
        Announced (u ''WARNING: Could not save files. Details: No space left on device''),
        Voiced (u ''WARNING: Could not save files. Details: No space left on device'')]"
proof -
  have h: "csv_write full_disk_world = Some (u ''No space left on device'')"
    by (simp add: full_disk_world_def demo_world_def)
  have x: "xlsx_write full_disk_world = None"
    by (simp add: full_disk_world_def demo_world_def)
  have t: "tts full_disk_world = (\<lambda>_. Spoken)"
    by (simp add: full_disk_world_def demo_world_def)
  from failed_csv_write_skips_excel
    [of full_disk_world "(u ''No space left on device'')" None demo_frame] h
  have "export_block full_disk_world =
      To_csv False # speak full_disk_world (warning (u ''No space left on device''))"
    by blast
  with h x show ?thesis by (simp add: speak_def t warning_def u_def)
qed

section \<open>Fetching the page\<close>

lemma count_speak: "count_list (speak w t) Http_get = 0"
  using speak_events [of w t] by (auto simp: count_list_0_iff)

lemma acquire_fails:
  assumes "fetch_fails w"
  shows "acquire w = (Http_get # speak w (fatal (failure_detail w)), Exit 1)"
proof (cases "response w")
  case (Reply status reason url page)
  with assms have "400 \<le> status" "status < 600"
    by (simp_all add: fetch_fails_def)
  then have "\<exists>msg. raise_for_status status reason url = Some msg"
    by (cases "status < 500") (simp_all add: raise_for_status_def)
  then obtain msg where "raise_for_status status reason url = Some msg" ..
  with Reply show ?thesis
    by (simp add: acquire_def failure_detail_def)
qed (simp_all add: acquire_def failure_detail_def)

text \<open>
  Nothing after the status check looks at the reply again: parsing, saving and searching
  go the same way whatever reply the world holds.
\<close>

lemma speak_reply: "speak (w\<lparr>response := r\<rparr>) = speak w"
  by (rule ext) (simp add: speak_def)

lemma export_block_reply: "export_block (w\<lparr>response := r\<rparr>) = export_block w"
  by (simp add: export_block_def speak_reply split: option.splits)

lemma row_item_reply: "row_item (w\<lparr>response := r\<rparr>) cols row col = row_item w cols row col"
  by (simp add: row_item_def split: list.splits)

lemma country_info_reply:
  "country_info (w\<lparr>response := r\<rparr>) cols row names = country_info w cols row names"
  by (induction names) (simp_all add: row_item_reply split: sum.splits)

lemma report_reply: "report (w\<lparr>response := r\<rparr>) st res query = report w st res query"
  by (simp add: report_def Let_def speak_reply row_item_reply country_info_reply
      split: list.splits sum.splits)

lemma loop_body_reply: "loop_body (w\<lparr>response := r\<rparr>) st line = loop_body w st line"
  by (simp add: loop_body_def Let_def speak_reply report_reply split: sum.splits)

lemma search_loop_reply: "search_loop (w\<lparr>response := r\<rparr>) st lines = search_loop w st lines"
  by (induction lines arbitrary: st)
    (simp_all add: loop_body_reply split: prod.splits control.splits)

lemma parse_reply: "parse (w\<lparr>response := r\<rparr>) page = parse w page"
  by (simp add: parse_def store_def interactive_def speak_reply export_block_reply
      search_loop_reply split: option.splits sum.splits list.splits)

text \<open>
  C4, as the script has it. A connection error, a timeout or a reply with a status from
  400 to 599 ends the script at once: the one request is followed by the announcement of
  the fatal error with the text of the exception, and the exit status is 1. No second
  request is made. A reply with any other status is no failure: the script goes on to read
  the page it carries, exactly as it does for the same reply with status 200.
\<close>

theorem fetch_is_fatal_from_400_to_599:
  "(fetch_fails w \<longrightarrow>
       acquire w = (Http_get # speak w (fatal (failure_detail w)), Exit 1)
       \<and> snd (process w) = 1
       \<and> (engine_ready w \<longrightarrow>
            process w = (speak w start_text @ Http_get # speak w (fatal (failure_detail w)), 1)
            \<and> count_list (fst (process w)) Http_get = 1))
   \<and> (\<forall>status reason url page.
         response w = Reply status reason url page \<and> (status < 400 \<or> 600 \<le> status) \<longrightarrow>
           acquire w = prepend [Http_get] (parse w page)
           \<and> acquire w = acquire (w\<lparr>response := Reply 200 reason url page\<rparr>)
           \<and> run w = run (w\<lparr>response := Reply 200 reason url page\<rparr>))"
proof -
  have fails: "acquire w = (Http_get # speak w (fatal (failure_detail w)), Exit 1)
       \<and> snd (process w) = 1
       \<and> (engine_ready w \<longrightarrow>
            process w = (speak w start_text @ Http_get # speak w (fatal (failure_detail w)), 1)
            \<and> count_list (fst (process w)) Http_get = 1)"
    if f: "fetch_fails w"
  proof -
    note a = acquire_fails [OF f]
    have ready: "process w =
        (speak w start_text @ Http_get # speak w (fatal (failure_detail w)), 1)"
      if "engine_ready w"
      using that a by (simp add: process_def run_def prepend_def)
    have status: "snd (process w) = 1"
    proof (cases "engine_ready w")
      case True
      from ready [OF this] show ?thesis by simp
    next
      case False
      then show ?thesis by (simp add: process_def run_def)
    qed
    have "count_list (fst (process w)) Http_get = 1" if "engine_ready w"
      by (simp add: ready [OF that] count_speak)
    with a ready status show ?thesis by blast
  qed
  have passes: "acquire w = prepend [Http_get] (parse w page)
           \<and> acquire w = acquire (w\<lparr>response := Reply 200 reason url page\<rparr>)
           \<and> run w = run (w\<lparr>response := Reply 200 reason url page\<rparr>)"
    if r: "response w = Reply status reason url page" and s: "status < 400 \<or> 600 \<le> status"
    for status reason url page
  proof -
    have n: "raise_for_status status reason url = None"
      using s by (auto simp: raise_for_status_def)
    have n200: "raise_for_status 200 reason url = None"
      by (simp add: raise_for_status_def)
    have a: "acquire w = prepend [Http_get] (parse w page)"
      by (simp add: acquire_def r n)
    have b: "acquire (w\<lparr>response := Reply 200 reason url page\<rparr>) =
        prepend [Http_get] (parse w page)"
      by (simp add: acquire_def n200 parse_reply)
    have "run w = run (w\<lparr>response := Reply 200 reason url page\<rparr>)"
      by (simp add: run_def a b speak_reply)
    with a b show ?thesis by simp
  qed
  from fails passes show ?thesis by blast
qed

theorem fetch_is_fatal_from_400_to_599_witness:
  "fetch_fails not_found_world
   \<and> process not_found_world =
       ([Announced (u ''Starting data fetch from Wikipedia...''),
         Voiced (u ''Starting data fetch from Wikipedia...''),
         Http_get,
         Announced (fatal (u ''404 Client Error: Not Found for url: https://en.wikipedia.org/'')),
         Voiced (fatal (u ''404 Client Error: Not Found for url: https://en.wikipedia.org/''))],
        1)
   \<and> response multiple_choices_world =
       Reply 300 (u ''Multiple Choices'') (u ''https://en.wikipedia.org/'') (Some demo_table)
   \<and> acquire multiple_choices_world =
       prepend [Http_get] (parse multiple_choices_world (Some demo_table))"
proof -
  have e: "engine_ready not_found_world"
    by (simp add: not_found_world_def demo_world_def)
  have f: "fetch_fails not_found_world"
    by (simp add: fetch_fails_def not_found_world_def demo_world_def)
  have d: "failure_detail not_found_world =
      u ''404 Client Error: Not Found for url: https://en.wikipedia.org/''"
    by (simp add: failure_detail_def raise_for_status_def not_found_world_def demo_world_def
        str_nat.simps u_def)
  have t: "tts not_found_world = (\<lambda>_. Spoken)"
    by (simp add: not_found_world_def demo_world_def)
  from fetch_is_fatal_from_400_to_599 [of not_found_world] e f
  have "process not_found_world =
      (speak not_found_world start_text
       @ Http_get # speak not_found_world (fatal (failure_detail not_found_world)), 1)"
    by blast
  then have p: "process not_found_world =
       ([Announced (u ''Starting data fetch from Wikipedia...''),
         Voiced (u ''Starting data fetch from Wikipedia...''),
         Http_get,
         Announced (fatal (u ''404 Client Error: Not Found for url: https://en.wikipedia.org/'')),
         Voiced (fatal (u ''404 Client Error: Not Found for url: https://en.wikipedia.org/''))],
        1)"
    by (simp add: d speak_def t start_text_def)
  have r: "response multiple_choices_world =
       Reply 300 (u ''Multiple Choices'') (u ''https://en.wikipedia.org/'') (Some demo_table)"
    by (simp add: multiple_choices_world_def demo_world_def)
  have s: "(300::nat) < 400 \<or> 600 \<le> (300::nat)"
    by simp
  from fetch_is_fatal_from_400_to_599 [of multiple_choices_world] r s
  have a: "acquire multiple_choices_world =
       prepend [Http_get] (parse multiple_choices_world (Some demo_table))"
    by blast
  from f p r a show ?thesis by (simp only: simp_thms)
qed

text \<open>
  A reply outside 200 to 299 need not fail: \<open>raise_for_status\<close> passes a status of 300,
  the page is read and the session runs to its normal end with status 0.
\<close>

theorem status_300_is_not_fatal:
  "response multiple_choices_world =
     Reply 300 (u ''Multiple Choices'') (u ''https://en.wikipedia.org/'') (Some demo_table)
   \<and> \<not> (200 \<le> (300::nat) \<and> (300::nat) < 300)
   \<and> engine_ready multiple_choices_world
   \<and> snd (run multiple_choices_world) = Finished
   \<and> snd (process multiple_choices_world) = 0"
proof -
  have r: "response multiple_choices_world =
     Reply 300 (u ''Multiple Choices'') (u ''https://en.wikipedia.org/'') (Some demo_table)"
    by (simp add: multiple_choices_world_def demo_world_def)
  have e: "engine_ready multiple_choices_world"
    by (simp add: multiple_choices_world_def demo_world_def)
  have t: "typed multiple_choices_world = [u ''exit'']"
    by (simp add: multiple_choices_world_def demo_world_def)
  have uw: "unicode multiple_choices_world = sample_unicode"
    by (simp add: multiple_choices_world_def demo_world_def)
  have s: "strip (u ''exit'') = u ''exit''"
    by (simp add: strip_def isspace_def u_def)
  have l: "lower sample_unicode (u ''exit'') = u ''exit''"
    by (simp add: lower_def u_def capital_sigma_def sample_unicode_def)
  have h: "read_headers demo_table = Inr [u ''Country'', u ''Active Personnel'']"
    by (simp add: demo_table_def read_headers_def find_all_def stripped_texts_def strip_def
        isspace_def u_def)
  have x: "extract_rows [u ''Country'', u ''Active Personnel''] (drop (Suc 0) demo_table) [] =
       [[u ''France'', u ''200000''], [u ''Germany'', u ''180000'']]"
    by (simp add: demo_table_def find_all_def stripped_texts_def strip_def isspace_def u_def)
  have b: "loop_body multiple_choices_world st (u ''exit'') =
      (speak multiple_choices_world (u ''Session terminated. Goodbye!''), Break,
       st\<lparr>search := Some (u ''exit'')\<rparr>)" for st
    by (simp add: loop_body_def Let_def s l uw)
  have fin: "snd (run multiple_choices_world) = Finished"
    by (simp add: run_def e acquire_def r raise_for_status_def prepend_def parse_def h x
        DataFrame_def store_def interactive_def t b)
  then have "snd (process multiple_choices_world) = 0"
    by (cases "run multiple_choices_world") (simp add: process_def)
  with r e fin show ?thesis by simp
qed

section \<open>A table without a readable header row\<close>

lemma extract_rows_no_headers: "extract_rows [] table acc = acc @ map (\<lambda>_. []) table"
  by (induction table arbitrary: acc) simp_all

lemma parse_empty_table:
  "parse w (Some []) =
     (speak w (u ''ERROR: Table appears empty or headers could not be read.''), Exit 1)"
  by (simp add: parse_def read_headers_def)

lemma parse_no_header_cells:
  assumes "find_all [Th] first = []"
  shows "parse w (Some (first # rest)) =
     (print_columns \<lparr>columns = [], rows = map (\<lambda>_. []) rest\<rparr> @ export_block w,
      Uncaught Index_error)"
proof -
  have h: "read_headers (first # rest) = Inr []"
    using assms by (simp add: read_headers_def stripped_texts_def)
  have f: "DataFrame (map (\<lambda>_. []) rest) [] = Inr \<lparr>columns = [], rows = map (\<lambda>_. []) rest\<rparr>"
    by (simp add: DataFrame_def list_all_iff)
  show ?thesis
    by (simp add: parse_def h extract_rows_no_headers f store_def interactive_def prepend_def)
qed

text \<open>
  The two ways a header row can be unreadable. A table without rows is caught on line 51:
  the script announces that the table appears empty or its headers could not be read, and
  exits with status 1. A first row without header cells raises nothing there: the script
  builds a frame without columns, prints the empty column list, runs the export block,
  and stops at line 89 on an \<open>IndexError\<close> that nothing catches.
\<close>

lemma unreadable_header_row_paths:
  assumes "engine_ready w" and "response w = Reply status reason url (Some table)"
    and "raise_for_status status reason url = None"
  shows "(table = [] \<longrightarrow>
            process w =
              (speak w start_text @ Http_get
               # speak w (u ''ERROR: Table appears empty or headers could not be read.''), 1))
     \<and> (\<forall>first rest. table = first # rest \<and> find_all [Th] first = [] \<longrightarrow>
            process w =
              (speak w start_text @ Http_get
               # print_columns \<lparr>columns = [], rows = map (\<lambda>_. []) rest\<rparr>
               @ export_block w @ [Traceback Index_error], 1))"
proof -
  have r: "run w = prepend (speak w start_text) (prepend [Http_get] (parse w (Some table)))"
    using assms by (simp add: run_def acquire_def)
  have one: "process w =
      (speak w start_text @ Http_get
       # speak w (u ''ERROR: Table appears empty or headers could not be read.''), 1)"
    if "table = []"
    using that by (simp add: process_def r parse_empty_table prepend_def)
  have two: "process w =
      (speak w start_text @ Http_get
       # print_columns \<lparr>columns = [], rows = map (\<lambda>_. []) rest\<rparr>
       @ export_block w @ [Traceback Index_error], 1)"
    if "table = first # rest" and "find_all [Th] first = []" for first rest
    using that by (simp add: process_def r parse_no_header_cells prepend_def)
  from one two show ?thesis by blast
qed

text \<open>
  C3. On a page whose table has a first row of data cells only, the script does not take
  the way of a fatal error. It reports no unreadable header: it prints a column list with
  no entry, writes both files, announces that the data were saved, and only then ends on
  the \<open>IndexError\<close> of line 89, which the interpreter reports. The sibling case of a table
  without rows is announced and ends with \<open>exit(1)\<close> at once.
\<close>

theorem headerless_table_is_saved_before_the_crash:
  "header_row_unreadable
     [[Cell Td (u ''France''), Cell Td (u ''200000'')],
      [Cell Td (u ''Germany''), Cell Td (u ''180000'')]]
   \<and> response headerless_world =
       Reply 200 (u ''OK'') (u ''https://en.wikipedia.org/'')
         (Some [[Cell Td (u ''France''), Cell Td (u ''200000'')],
                [Cell Td (u ''Germany''), Cell Td (u ''180000'')]])
   \<and> process headerless_world =
       ([Announced (u ''Starting data fetch from Wikipedia...''),
         Voiced (u ''Starting data fetch from Wikipedia...''),
         Http_get,
         Printed (newline # replicate 40 (of_char CHR ''='')),
         Heading,
         Printed (replicate 40 (of_char CHR ''='') @ [newline]),
         To_csv True,
         To_excel True,
         Announced (u ''Data successfully structured and saved as CSV and Excel files.''),
         Voiced (u ''Data successfully structured and saved as CSV and Excel files.''),
         Traceback Index_error],
        1)
   \<and> Announced (u ''ERROR: Table appears empty or headers could not be read.'')
       \<notin> set (fst (process headerless_world))
   \<and> process empty_table_world =
       ([Announced (u ''Starting data fetch from Wikipedia...''),
         Voiced (u ''Starting data fetch from Wikipedia...''),
         Http_get,
         Announced (u ''ERROR: Table appears empty or headers could not be read.''),
         Voiced (u ''ERROR: Table appears empty or headers could not be read.'')],
        1)"
proof -
  have hu: "header_row_unreadable
     [[Cell Td (u ''France''), Cell Td (u ''200000'')],
      [Cell Td (u ''Germany''), Cell Td (u ''180000'')]]"
    by (simp add: header_row_unreadable_def find_all_def)
  have e: "engine_ready headerless_world"
    by (simp add: headerless_world_def demo_world_def)
  have r: "response headerless_world =
      Reply 200 (u ''OK'') (u ''https://en.wikipedia.org/'')
        (Some [[Cell Td (u ''France''), Cell Td (u ''200000'')],
               [Cell Td (u ''Germany''), Cell Td (u ''180000'')]])"
    by (simp add: headerless_world_def demo_world_def)
  have s: "raise_for_status 200 (u ''OK'') (u ''https://en.wikipedia.org/'') = None"
    by (simp add: raise_for_status_def)
  have n: "find_all [Th] [Cell Td (u ''France''), Cell Td (u ''200000'')] = []"
    by (simp add: find_all_def)
  have t: "tts headerless_world = (\<lambda>_. Spoken)"
    by (simp add: headerless_world_def demo_world_def)
  have c: "csv_write headerless_world = None" "xlsx_write headerless_world = None"
    by (simp_all add: headerless_world_def demo_world_def)
  from unreadable_header_row_paths [OF e r s] n
  have "process headerless_world =
      (speak headerless_world start_text @ Http_get
       # print_columns
           \<lparr>columns = [],
              rows = map (\<lambda>_. []) [[Cell Td (u ''Germany''), Cell Td (u ''180000'')]]\<rparr>
       @ export_block headerless_world @ [Traceback Index_error], 1)"
    by blast
  then have p: "process headerless_world =
       ([Announced (u ''Starting data fetch from Wikipedia...''),
         Voiced (u ''Starting data fetch from Wikipedia...''),
         Http_get,
         Printed (newline # replicate 40 (of_char CHR ''='')),
         Heading,
         Printed (replicate 40 (of_char CHR ''='') @ [newline]),
         To_csv True,
         To_excel True,
         Announced (u ''Data successfully structured and saved as CSV and Excel files.''),
         Voiced (u ''Data successfully structured and saved as CSV and Excel files.''),
         Traceback Index_error],
        1)"
    by (simp add: speak_def t c start_text_def print_columns_def export_block_def)
  have q: "Announced (u ''ERROR: Table appears empty or headers could not be read.'')
       \<notin> set (fst (process headerless_world))"
    unfolding p by (simp add: u_def)
  have e': "engine_ready empty_table_world"
    by (simp add: empty_table_world_def demo_world_def)
  have r': "response empty_table_world =
      Reply 200 (u ''OK'') (u ''https://en.wikipedia.org/'') (Some [])"
    by (simp add: empty_table_world_def demo_world_def)
  have t': "tts empty_table_world = (\<lambda>_. Spoken)"
    by (simp add: empty_table_world_def demo_world_def)
  from unreadable_header_row_paths [OF e' r' s]
  have "process empty_table_world =
      (speak empty_table_world start_text @ Http_get
       # speak empty_table_world
           (u ''ERROR: Table appears empty or headers could not be read.''), 1)"
    by blast
  then have z: "process empty_table_world =
       ([Announced (u ''Starting data fetch from Wikipedia...''),
         Voiced (u ''Starting data fetch from Wikipedia...''),
         Http_get,
         Announced (u ''ERROR: Table appears empty or headers could not be read.''),
         Voiced (u ''ERROR: Table appears empty or headers could not be read.'')],
        1)"
    by (simp add: speak_def t' start_text_def)
  from hu r p q z show ?thesis by (simp only: simp_thms)
qed

section \<open>The speech engine\<close>

text \<open>
  Inside \<open>speak\<close> a failure of the engine leaves the printed line and nothing else.
\<close>

lemma speak_passes_over_failures:
  "speak w t = Announced t # (if tts w t = Spoken then [Voiced t] else [])"
  by (simp add: speak_def split: tts_outcome.splits)

text \<open>
  C5. The engine is built on line 9, before \<open>speak\<close> exists and outside every handler.
  Where no engine can be had, the script ends there on the exception: nothing is printed,
  no page is fetched, the interpreter reports the traceback and the status is 1, while the
  same world with an engine runs the whole session.
\<close>

theorem engine_failure_at_start_is_not_caught:
  "\<not> engine_ready headless_world
   \<and> run headless_world = ([], Uncaught Engine_error)
   \<and> process headless_world = ([Traceback Engine_error], 1)
   \<and> snd (process demo_world) = 0"
proof -
  have e: "\<not> engine_ready headless_world"
    by (simp add: headless_world_def demo_world_def)
  then have r: "run headless_world = ([], Uncaught Engine_error)"
    by (simp add: run_def)
  then have p: "process headless_world = ([Traceback Engine_error], 1)"
    by (simp add: process_def)
  have ready: "engine_ready demo_world"
    by (simp add: demo_world_def)
  have reply: "response demo_world =
      Reply 200 (u ''OK'') (u ''https://en.wikipedia.org/'') (Some demo_table)"
    by (simp add: demo_world_def)
  have lines: "typed demo_world = [u ''franc'', u ''exit'']"
    by (simp add: demo_world_def)
  have h: "read_headers demo_table = Inr [u ''Country'', u ''Active Personnel'']"
    by (simp add: demo_table_def read_headers_def find_all_def stripped_texts_def strip_def
        isspace_def u_def)
  have x: "extract_rows [u ''Country'', u ''Active Personnel''] (drop (Suc 0) demo_table) [] =
       [[u ''France'', u ''200000''], [u ''Germany'', u ''180000'']]"
    by (simp add: demo_table_def find_all_def stripped_texts_def strip_def isspace_def u_def)
  have st: "strip (u ''franc'') = u ''franc''" "strip (u ''exit'') = u ''exit''"
    by (simp_all add: strip_def isspace_def u_def)
  have lo: "lower sample_unicode (u ''franc'') = u ''franc''"
    "lower sample_unicode (u ''exit'') = u ''exit''"
    by (simp_all add: lower_def u_def capital_sigma_def sample_unicode_def)
  have uw: "unicode demo_world = sample_unicode"
    by (simp add: demo_world_def)
  have ne: "u ''franc'' \<noteq> u ''exit''" "u ''franc'' \<noteq> []"
    by (simp_all add: u_def)
  have cols: "columns demo_frame = u ''Country'' # [u ''Active Personnel'']"
    "u ''Country'' \<notin> set [u ''Active Personnel'']"
    by (simp_all add: demo_frame_def u_def)
  have keep: "map (entity_matches sample_unicode (u ''franc'')) (rows demo_frame) = [True, False]"
    by code_simp
  have sc: "str_contains sample_unicode demo_frame (u ''Country'') (re_escape (u ''franc'')) =
      Inr [True, False]"
    using str_contains_entity [OF cols, of sample_unicode "u ''franc''"] keep by (simp add: lo)
  have told: "snd (report demo_world s (select_rows demo_frame [True, False]) q) = Continue"
    if "df s = demo_frame" and "name_col s = u ''Country''" for s q
    using that
    by (simp add: report_def Let_def select_rows_def frame_empty_def row_item_def at_label_def
        demo_frame_def u_def)
  have going: "fst (snd (loop_body demo_world
        \<lparr>df = demo_frame, name_col = u ''Country'', search = None, pattern = None,
           result = None\<rparr> (u ''franc''))) = Continue"
  proof -
    let ?s = "\<lparr>df = demo_frame, name_col = u ''Country'', search = Some (u ''franc''),
         pattern = Some (re_escape (u ''franc'')),
         result = Some (select_rows demo_frame [True, False])\<rparr>"
    have "snd (report demo_world ?s (select_rows demo_frame [True, False]) (u ''franc'')) =
        Continue"
      by (rule told) simp_all
    then show ?thesis
      by (auto simp: loop_body_def Let_def st lo uw ne sc split: prod.splits)
  qed
  have stop: "fst (snd (loop_body demo_world s (u ''exit''))) = Break" for s
    by (simp add: loop_body_break st lo uw)
  have loop: "fst (snd (search_loop demo_world
        \<lparr>df = demo_frame, name_col = u ''Country'', search = None, pattern = None,
           result = None\<rparr> [u ''franc'', u ''exit''])) = Finished"
  proof -
    obtain ev s1 where b1: "loop_body demo_world
        \<lparr>df = demo_frame, name_col = u ''Country'', search = None, pattern = None,
           result = None\<rparr> (u ''franc'') = (ev, Continue, s1)"
      using going
      by (cases "loop_body demo_world
        \<lparr>df = demo_frame, name_col = u ''Country'', search = None, pattern = None,
           result = None\<rparr> (u ''franc'')") auto
    obtain ev2 s2 where b2: "loop_body demo_world s1 (u ''exit'') = (ev2, Break, s2)"
      using stop [of s1] by (cases "loop_body demo_world s1 (u ''exit'')") auto
    show ?thesis
      by (simp add: b1 b2)
  qed
  have frame: "DataFrame [[u ''France'', u ''200000''], [u ''Germany'', u ''180000'']]
      [u ''Country'', u ''Active Personnel''] = Inr demo_frame"
    by (simp add: DataFrame_def demo_frame_def)
  obtain evs s where whole: "search_loop demo_world
        \<lparr>df = demo_frame, name_col = u ''Country'', search = None, pattern = None,
           result = None\<rparr> [u ''franc'', u ''exit''] = (evs, Finished, s)"
    using loop
    by (cases "search_loop demo_world
        \<lparr>df = demo_frame, name_col = u ''Country'', search = None, pattern = None,
           result = None\<rparr> [u ''franc'', u ''exit'']") auto
  have "interactive demo_world demo_frame =
      (speak demo_world (u ''Starting interactive search. Searching on the column: ''
                         @ [apostrophe] @ u ''Country'' @ [apostrophe] @ u ''.'') @ evs,
       Finished)"
    by (simp add: interactive_def cols lines whole del: search_loop.simps)
  then have "snd (run demo_world) = Finished"
    by (simp add: run_def ready acquire_def reply raise_for_status_def prepend_def parse_def h x
        frame store_def)
  then have "snd (process demo_world) = 0"
    by (cases "run demo_world") (simp add: process_def)
  with e r p show ?thesis by simp
qed

end
